theory Spec2Isabelle
  imports Main "HOL-Library.Word"
begin

unbundle bit_operations_syntax

section \<open>Frame codec (protocol.go)\<close>

text \<open>
  Bytes are 8-bit words, the length field is a 16-bit word, so that the arithmetic of
  \<^verbatim>\<open>3+dataLen\<close> in \<^verbatim>\<open>UnmarshalMessage\<close> wraps around exactly as Go's \<^verbatim>\<open>uint16\<close> does.
  A Go \<^verbatim>\<open>error\<close> is modelled by its message text (the only thing the program ever
  observes of it: \<^verbatim>\<open>err.Error()\<close> and \<^verbatim>\<open>%v\<close> formatting); a run-time panic is kept
  apart from a returned error: \<open>Inl (Error msg)\<close> is a returned error, \<open>Inl (Panic msg)\<close>
  a panic. \<^verbatim>\<open>Marshal\<close> and \<^verbatim>\<open>UnmarshalResizeData\<close> cannot panic and return
  \<open>go_error + _\<close>.
\<close>

type_synonym byte = "8 word"
type_synonym uint16 = "16 word"
type_synonym MessageType = "8 word"
type_synonym go_error = string

datatype failure = Error go_error | Panic string

definition MsgTypeData :: MessageType where "MsgTypeData = 0x01"
definition MsgTypeResize :: MessageType where "MsgTypeResize = 0x02"
definition MsgTypeControl :: MessageType where "MsgTypeControl = 0x03"
definition MsgTypeError :: MessageType where "MsgTypeError = 0x04"
definition MsgTypeHeartbeat :: MessageType where "MsgTypeHeartbeat = 0x05"
definition MsgTypeClose :: MessageType where "MsgTypeClose = 0x06"

record Message =
  Type :: MessageType
  Data :: "byte list"

record ResizeData =
  Cols :: uint16
  Rows :: uint16

text \<open>The value of the Go slice expression \<^verbatim>\<open>xs[lo:hi]\<close> when its bounds are in range.\<close>

definition slice :: "'a list \<Rightarrow> nat \<Rightarrow> nat \<Rightarrow> 'a list" where
  "slice xs lo hi = take (hi - lo) (drop lo xs)"

text \<open>\<^verbatim>\<open>binary.LittleEndian.Uint16\<close> and \<^verbatim>\<open>binary.LittleEndian.PutUint16\<close> on a 2-byte slice.\<close>

definition LittleEndian_Uint16 :: "byte list \<Rightarrow> uint16" where
  "LittleEndian_Uint16 b = (ucast (b ! 0) OR push_bit 8 (ucast (b ! 1)))"

definition LittleEndian_PutUint16 :: "uint16 \<Rightarrow> byte list" where
  "LittleEndian_PutUint16 v = [ucast v, ucast (drop_bit 8 v)]"

text \<open>
  \<^verbatim>\<open>Message.Marshal\<close>: the buffer is \<^verbatim>\<open>[type][len lo][len hi]\<close> followed by the data;
  \<^verbatim>\<open>uint16(len(m.Data))\<close> is \<open>of_nat\<close> into the 16-bit word.
\<close>

definition Marshal :: "Message \<Rightarrow> go_error + byte list" where
  "Marshal m =
     (if length (Data m) > 0xFFFF then Inl ''message data too large''
      else Inr ([Type m] @ LittleEndian_PutUint16 (of_nat (length (Data m))) @ Data m))"

text \<open>
  \<^verbatim>\<open>UnmarshalMessage\<close>. \<^verbatim>\<open>dataLen\<close> is a \<^verbatim>\<open>uint16\<close>, so \<^verbatim>\<open>3+dataLen\<close> is computed in
  16 bits, both in the length check \<^verbatim>\<open>len(data) < int(3+dataLen)\<close> and in the upper
  bound of \<^verbatim>\<open>data[3:3+dataLen]\<close>. A slice expression whose upper bound is below its lower
  bound (or above the slice) panics in Go.
\<close>

definition UnmarshalMessage :: "byte list \<Rightarrow> failure + Message" where
  "UnmarshalMessage data =
     (if length data < 3 then Inl (Error ''message too short'')
      else
        let msgType = data ! 0;
            dataLen = LittleEndian_Uint16 (slice data 1 3);
            hi = unat (3 + dataLen)
        in if length data < hi then Inl (Error ''incomplete message'')
           else if hi < 3 \<or> length data < hi then Inl (Panic ''slice bounds out of range'')
           else Inr \<lparr>Type = msgType, Data = slice data 3 hi\<rparr>)"

definition ResizeData_Marshal :: "ResizeData \<Rightarrow> byte list" where
  "ResizeData_Marshal r = LittleEndian_PutUint16 (Cols r) @ LittleEndian_PutUint16 (Rows r)"

definition UnmarshalResizeData :: "byte list \<Rightarrow> go_error + ResizeData" where
  "UnmarshalResizeData data =
     (if length data < 4 then Inl ''invalid resize data''
      else Inr \<lparr>Cols = LittleEndian_Uint16 (slice data 0 2),
                Rows = LittleEndian_Uint16 (slice data 2 4)\<rparr>)"

section \<open>PTY handle (pty.go)\<close>

text \<open>
  The operating system under the handle is the environment. Each operation takes the
  result the underlying call would give (\<open>os\<close>) and the handle records, in \<open>calls\<close>,
  every call that reaches the master file or the child process. The fields \<open>cmd\<close>,
  \<open>cmd_Process\<close> and \<open>pty_file\<close> say whether \<^verbatim>\<open>p.cmd\<close>, \<^verbatim>\<open>p.cmd.Process\<close> and
  \<^verbatim>\<open>p.pty\<close> are non-nil. The read-write mutex only serialises the operations and is
  not modelled: the functions below are the critical sections.
\<close>

datatype os_call =
    StartWithSize uint16 uint16
  | MasterRead
  | MasterWrite "byte list" nat
  | Setsize uint16 uint16
  | ProcSignal nat
  | ProcKill
  | MasterClose
  | CmdCancel

record PTY =
  cmd :: bool
  cmd_Process :: bool
  pty_file :: bool
  closed :: bool
  calls :: "os_call list"

definition io_EOF :: go_error where "io_EOF = ''EOF''"
definition io_ErrClosedPipe :: go_error where
  "io_ErrClosedPipe = ''io: read/write on closed pipe''"
definition SIGTERM :: nat where "SIGTERM = 15"

text \<open>\<^verbatim>\<open>NewPTY\<close>; \<open>start\<close> is the error of \<^verbatim>\<open>pty.StartWithSize\<close>, if any. The arguments of
  \<open>StartWithSize\<close> and \<open>Setsize\<close> are (cols, rows).\<close>

definition NewPTY :: "uint16 \<Rightarrow> uint16 \<Rightarrow> go_error option \<Rightarrow> go_error + PTY" where
  "NewPTY cols rows start =
     (case start of
        Some err \<Rightarrow> Inl err
      | None \<Rightarrow> Inr \<lparr>cmd = True, cmd_Process = True, pty_file = True, closed = False,
                       calls = [StartWithSize cols rows]\<rparr>)"

text \<open>\<^verbatim>\<open>PTY.Read\<close>: \<open>os\<close> is \<^verbatim>\<open>(buf[:n], err)\<close> of the read on the master.\<close>

definition PTY_Read :: "PTY \<Rightarrow> byte list \<times> go_error option \<Rightarrow> (byte list \<times> go_error option) \<times> PTY" where
  "PTY_Read p os =
     (if closed p then (([], Some io_EOF), p)
      else (os, p\<lparr>calls := calls p @ [MasterRead]\<rparr>))"

text \<open>\<^verbatim>\<open>PTY.Write\<close>: \<open>os\<close> is \<^verbatim>\<open>(n, err)\<close> of the write on the master.\<close>

definition PTY_Write :: "PTY \<Rightarrow> byte list \<Rightarrow> nat \<times> go_error option \<Rightarrow> (nat \<times> go_error option) \<times> PTY" where
  "PTY_Write p data os =
     (if closed p then ((0, Some io_ErrClosedPipe), p)
      else (os, p\<lparr>calls := calls p @ [MasterWrite data (fst os)]\<rparr>))"

definition PTY_Resize :: "PTY \<Rightarrow> uint16 \<Rightarrow> uint16 \<Rightarrow> go_error option \<Rightarrow> go_error option \<times> PTY" where
  "PTY_Resize p cols rows os =
     (if closed p then (Some io_ErrClosedPipe, p)
      else (os, p\<lparr>calls := calls p @ [Setsize cols rows]\<rparr>))"

text \<open>\<open>goos\<close> is \<^verbatim>\<open>runtime.GOOS\<close>.\<close>

definition PTY_SendSignal :: "string \<Rightarrow> PTY \<Rightarrow> nat \<Rightarrow> go_error option \<Rightarrow> go_error option \<times> PTY" where
  "PTY_SendSignal goos p sig os =
     (if closed p \<or> \<not> cmd_Process p then (Some io_ErrClosedPipe, p)
      else if goos = ''windows'' then (os, p\<lparr>calls := calls p @ [ProcKill]\<rparr>)
      else (os, p\<lparr>calls := calls p @ [ProcSignal sig]\<rparr>))"

text \<open>\<^verbatim>\<open>PTY.Close\<close> always returns nil; only the handle changes.\<close>

definition PTY_Close :: "string \<Rightarrow> PTY \<Rightarrow> PTY" where
  "PTY_Close goos p =
     (if closed p then p
      else p\<lparr>closed := True,
              calls := calls p @ [CmdCancel]
                @ (if pty_file p then [MasterClose] else [])
                @ (if cmd p \<and> cmd_Process p
                   then (if goos = ''windows'' then [ProcKill] else [ProcSignal SIGTERM])
                   else [])\<rparr>)"

text \<open>The bytes the master has taken, in order: for every write that reached it, the
  first \<open>n\<close> bytes, \<open>n\<close> being the count the write returned.\<close>

fun master_received :: "os_call list \<Rightarrow> byte list" where
  "master_received [] = []"
| "master_received (MasterWrite d n # cs) = take n d @ master_received cs"
| "master_received (_ # cs) = master_received cs"

section \<open>Session and handler (handler.go)\<close>

text \<open>
  A session is the connection, the optional PTY, the cancellation of its context and
  the one-shot guard of \<^verbatim>\<open>cleanup\<close>. Of the connection the model keeps the binary
  messages written to it (\<open>conn_sent\<close>, in order) and whether it has been closed;
  \<open>pumps\<close> counts the \<^verbatim>\<open>readFromPTY\<close> goroutines started. \<^verbatim>\<open>Session\<close> has no field
  that refers to the handler. The write mutex and the heartbeat goroutine (pings, and
  cancellation when a ping fails) are not modelled.

  The environment of one step is a record of the results the outside world gives to the
  calls the step may make: \<^verbatim>\<open>pty.StartWithSize\<close>, the write on the master,
  \<^verbatim>\<open>pty.Setsize\<close>, the signal to the child, and \<^verbatim>\<open>conn.WriteMessage\<close>.
\<close>

record Session =
  conn_sent :: "byte list list"
  conn_closed :: bool
  pty :: "PTY option"
  ctx_done :: bool
  closeOnce :: bool
  pumps :: nat

record env =
  start_res :: "go_error option"
  write_res :: "nat \<times> go_error option"
  setsize_res :: "go_error option"
  signal_res :: "go_error option"
  ws_res :: "go_error option"

datatype recv = Recv "byte list" | RecvErr go_error

text \<open>
  Where a goroutine stands: \<open>Running\<close> in its loop (waiting for the next result),
  \<open>Cleaning\<close> inside the deferred \<^verbatim>\<open>cleanup\<close> that has not completed, \<open>Returned\<close>, or
  \<open>Panicked\<close>.
\<close>

datatype status = Running | Cleaning | Returned | Panicked

text \<open>\<^verbatim>\<open>%d\<close> of a number, and \<^verbatim>\<open>[]byte(str)\<close>.\<close>

fun dec :: "nat \<Rightarrow> string" where
  "dec n = (if n < 10 then [char_of (48 + n)] else dec (n div 10) @ [char_of (48 + n mod 10)])"

definition bytes_of :: "string \<Rightarrow> byte list" where
  "bytes_of str = map of_char str"

definition createSession :: Session where
  "createSession = \<lparr>conn_sent = [], conn_closed = False, pty = None, ctx_done = False,
                     closeOnce = False, pumps = 0\<rparr>"

definition cancel :: "Session \<Rightarrow> Session" where
  "cancel s = s\<lparr>ctx_done := True\<rparr>"

text \<open>\<^verbatim>\<open>sendMessage\<close>: a marshalling error is logged and nothing else happens; a failed
  write on the connection fires the cancellation.\<close>

definition sendMessage :: "Session \<Rightarrow> Message \<Rightarrow> go_error option \<Rightarrow> Session" where
  "sendMessage s msg ws =
     (case Marshal msg of
        Inl err \<Rightarrow> s
      | Inr data \<Rightarrow>
          (case ws of
             None \<Rightarrow> s\<lparr>conn_sent := conn_sent s @ [data]\<rparr>
           | Some err \<Rightarrow> cancel s))"

definition sendData :: "Session \<Rightarrow> byte list \<Rightarrow> go_error option \<Rightarrow> Session" where
  "sendData s data ws = sendMessage s \<lparr>Type = MsgTypeData, Data = data\<rparr> ws"

definition sendError :: "Session \<Rightarrow> string \<Rightarrow> go_error option \<Rightarrow> Session" where
  "sendError s errMsg ws = sendMessage s \<lparr>Type = MsgTypeError, Data = bytes_of errMsg\<rparr> ws"

text \<open>The handlers return the error (\<open>None\<close> for nil) and the session as they leave it.\<close>

definition handleData :: "Session \<Rightarrow> byte list \<Rightarrow> env \<Rightarrow> go_error option \<times> Session" where
  "handleData s data e =
     (case (case pty s of
              None \<Rightarrow>
                (case NewPTY 80 24 (start_res e) of
                   Inl err \<Rightarrow> Inl (''failed to create PTY: '' @ err)
                 | Inr p \<Rightarrow> Inr (p, s\<lparr>pty := Some p, pumps := pumps s + 1\<rparr>))
            | Some p \<Rightarrow> Inr (p, s)) of
        Inl err \<Rightarrow> (Some err, s)
      | Inr (p, s1) \<Rightarrow>
          (case PTY_Write p data (write_res e) of
             ((n, err), p') \<Rightarrow> (err, s1\<lparr>pty := Some p'\<rparr>)))"

definition handleResize :: "Session \<Rightarrow> byte list \<Rightarrow> env \<Rightarrow> go_error option \<times> Session" where
  "handleResize s data e =
     (case (case pty s of
              None \<Rightarrow>
                (case NewPTY 80 24 (start_res e) of
                   Inl err \<Rightarrow> Inl (''failed to create PTY: '' @ err)
                 | Inr p \<Rightarrow> Inr (p, s\<lparr>pty := Some p, pumps := pumps s + 1\<rparr>))
            | Some p \<Rightarrow> Inr (p, s)) of
        Inl err \<Rightarrow> (Some err, s)
      | Inr (p, s1) \<Rightarrow>
          (case UnmarshalResizeData data of
             Inl err \<Rightarrow> (Some (''failed to unmarshal resize data: '' @ err), s1)
           | Inr resizeData \<Rightarrow>
               (case PTY_Resize p (Cols resizeData) (Rows resizeData) (setsize_res e) of
                  (err, p') \<Rightarrow> (err, s1\<lparr>pty := Some p'\<rparr>))))"

text \<open>\<^verbatim>\<open>syscall.Signal(data[0])\<close> is the number of the first byte.\<close>

definition handleControl :: "string \<Rightarrow> Session \<Rightarrow> byte list \<Rightarrow> env \<Rightarrow> go_error option \<times> Session" where
  "handleControl goos s data e =
     (case pty s of
        None \<Rightarrow> (Some ''no PTY available'', s)
      | Some p \<Rightarrow>
          (if length data < 1 then (Some ''invalid control data'', s)
           else (case PTY_SendSignal goos p (unat (data ! 0)) (signal_res e) of
                   (err, p') \<Rightarrow> (err, s\<lparr>pty := Some p'\<rparr>))))"

definition lift_err :: "go_error option \<times> Session \<Rightarrow> failure option \<times> Session" where
  "lift_err r = (map_option Error (fst r), snd r)"

definition handleMessage :: "string \<Rightarrow> Session \<Rightarrow> byte list \<Rightarrow> env \<Rightarrow> failure option \<times> Session" where
  "handleMessage goos s data e =
     (case UnmarshalMessage data of
        Inl (Error err) \<Rightarrow> (Some (Error (''failed to unmarshal message: '' @ err)), s)
      | Inl (Panic msg) \<Rightarrow> (Some (Panic msg), s)
      | Inr msg \<Rightarrow>
          (if Type msg = MsgTypeData then lift_err (handleData s (Data msg) e)
           else if Type msg = MsgTypeResize then lift_err (handleResize s (Data msg) e)
           else if Type msg = MsgTypeControl then lift_err (handleControl goos s (Data msg) e)
           else if Type msg = MsgTypeHeartbeat then (None, s)
           else if Type msg = MsgTypeClose then (None, cancel s)
           else (Some (Error (''unknown message type: '' @ dec (unat (Type msg)))), s)))"

text \<open>
  \<^verbatim>\<open>cleanup\<close>, under its \<^verbatim>\<open>sync.Once\<close>: cancel, close the PTY if there is one, close the
  connection. \<^verbatim>\<open>PTY.Close\<close> begins with \<^verbatim>\<open>p.mu.Lock()\<close>, and \<^verbatim>\<open>PTY.Read\<close> holds
  \<^verbatim>\<open>p.mu.RLock()\<close> across its blocking read on the master: while a pump started by this
  session is inside a read that does not return, \<^verbatim>\<open>Close\<close> waits for the lock. That is
  the argument \<open>pump_reading\<close>, a fact of the environment as the results in \<open>env\<close> are.
  Then \<^verbatim>\<open>cleanup\<close> has fired the cancellation and nothing else: the PTY is not closed,
  the connection is not closed and the \<^verbatim>\<open>sync.Once\<close> is not done. The second component
  of the result says whether \<^verbatim>\<open>cleanup\<close> has completed.
\<close>

definition cleanup :: "string \<Rightarrow> Session \<Rightarrow> bool \<Rightarrow> Session \<times> bool" where
  "cleanup goos s pump_reading =
     (if closeOnce s then (s, True)
      else
        (case pty s of
           None \<Rightarrow> ((cancel s)\<lparr>conn_closed := True, closeOnce := True\<rparr>, True)
         | Some p \<Rightarrow>
             if pump_reading \<and> 0 < pumps s then (cancel s, False)
             else ((cancel s)\<lparr>pty := Some (PTY_Close goos p), conn_closed := True,
                             closeOnce := True\<rparr>, True)))"

text \<open>
  The reader loop of \<^verbatim>\<open>handleConnection\<close> over the results of \<^verbatim>\<open>conn.ReadMessage\<close>,
  each with the environment of its step. The loop is \<open>Running\<close> when it waits for a
  message that the list does not hold. An error of \<^verbatim>\<open>handleMessage\<close> is sent to the peer
  and the loop goes on; a panic leaves the loop.
\<close>

fun readLoop :: "string \<Rightarrow> Session \<Rightarrow> (recv \<times> env) list \<Rightarrow> Session \<times> status" where
  "readLoop goos s [] = (s, if ctx_done s then Returned else Running)"
| "readLoop goos s ((r, e) # rest) =
     (if ctx_done s then (s, Returned)
      else (case r of
              RecvErr err \<Rightarrow> (s, Returned)
            | Recv data \<Rightarrow>
                (case handleMessage goos s data e of
                   (None, s') \<Rightarrow> readLoop goos s' rest
                 | (Some (Error err), s') \<Rightarrow>
                     readLoop goos (sendError s' (''Error: '' @ err) (ws_res e)) rest
                 | (Some (Panic msg), s') \<Rightarrow> (s', Panicked))))"

text \<open>\<^verbatim>\<open>handleConnection\<close>: the deferred \<^verbatim>\<open>cleanup\<close> runs when the loop is left, by return
  or by panic; the goroutine ends only when \<^verbatim>\<open>cleanup\<close> has completed.\<close>

definition handleConnection ::
  "string \<Rightarrow> Session \<Rightarrow> (recv \<times> env) list \<Rightarrow> bool \<Rightarrow> Session \<times> status" where
  "handleConnection goos s ins pump_reading =
     (case readLoop goos s ins of
        (s', Running) \<Rightarrow> (s', Running)
      | (s', st) \<Rightarrow>
          (case cleanup goos s' pump_reading of
             (s'', completed) \<Rightarrow> (s'', if completed then st else Cleaning)))"

text \<open>
  \<^verbatim>\<open>readFromPTY\<close>: the pump, over the results of the reads on the master, each with the
  result of the \<^verbatim>\<open>conn.WriteMessage\<close> that may follow it. A nil \<^verbatim>\<open>s.pty\<close> inside the
  loop would be a nil dereference.
\<close>

fun readFromPTY_loop ::
  "Session \<Rightarrow> ((byte list \<times> go_error option) \<times> go_error option) list \<Rightarrow> Session \<times> status" where
  "readFromPTY_loop s [] = (s, if ctx_done s then Returned else Running)"
| "readFromPTY_loop s ((os, ws) # rest) =
     (if ctx_done s then (s, Returned)
      else (case pty s of
              None \<Rightarrow> (s, Panicked)
            | Some p \<Rightarrow>
                (case PTY_Read p os of
                   ((buf, Some err), p') \<Rightarrow>
                     (if err \<noteq> ''EOF''
                      then (sendError (s\<lparr>pty := Some p'\<rparr>) (''PTY read error: '' @ err) ws, Returned)
                      else (s\<lparr>pty := Some p'\<rparr>, Returned))
                 | ((buf, None), p') \<Rightarrow>
                     readFromPTY_loop
                       (if length buf > 0 then sendData (s\<lparr>pty := Some p'\<rparr>) buf ws
                        else s\<lparr>pty := Some p'\<rparr>) rest)))"

definition readFromPTY ::
  "Session \<Rightarrow> ((byte list \<times> go_error option) \<times> go_error option) list \<Rightarrow> Session \<times> status" where
  "readFromPTY s ins = (case pty s of None \<Rightarrow> (s, Returned) | Some p \<Rightarrow> readFromPTY_loop s ins)"





text \<open>
  Two observations used to state the ordering properties: the bytes the master of the
  session's PTY has taken, and the bytes a peer obtains by decoding the messages written
  to the connection and keeping the payloads of the DATA frames.
\<close>

definition pty_received :: "Session \<Rightarrow> byte list" where
  "pty_received s = (case pty s of None \<Rightarrow> [] | Some p \<Rightarrow> master_received (calls p))"

definition data_payload :: "byte list \<Rightarrow> byte list" where
  "data_payload frame =
     (case UnmarshalMessage frame of
        Inr m \<Rightarrow> if Type m = MsgTypeData then Data m else []
      | Inl f \<Rightarrow> [])"

definition peer_received :: "byte list list \<Rightarrow> byte list" where
  "peer_received frames = concat (map data_payload frames)"

text \<open>
  The bytes of the frame (type, payload) on the wire, as \<^verbatim>\<open>Marshal\<close> writes them, and the
  messages the reader loop reads when the peer sends the DATA frames with the payloads of
  \<open>steps\<close>, each paired with the environment of its step.
\<close>

definition frame :: "MessageType \<Rightarrow> byte list \<Rightarrow> byte list" where
  "frame t d = [t] @ LittleEndian_PutUint16 (of_nat (length d)) @ d"

definition DATA_frames :: "(byte list \<times> env) list \<Rightarrow> (recv \<times> env) list" where
  "DATA_frames steps = map (\<lambda>(d, e). (Recv (frame MsgTypeData d), e)) steps"

text \<open>
  What the master takes of a sequence of DATA payloads, given the environment of each
  step: a frame that finds no PTY and cannot start one brings nothing; of every other
  frame the master takes the first \<open>n\<close> bytes, \<open>n\<close> being the count its write returns.
  \<open>live\<close> says whether the session has a PTY.
\<close>

fun delivered :: "bool \<Rightarrow> (byte list \<times> env) list \<Rightarrow> byte list" where
  "delivered live [] = []"
| "delivered live ((d, e) # rest) =
     (if \<not> live \<and> start_res e \<noteq> None then delivered False rest
      else take (fst (write_res e)) d @ delivered True rest)"

text \<open>
  Steps in which nothing fails. A step of the reader loop receives the DATA frame with
  payload \<open>d\<close> when the message read from the connection decodes to it, and the
  environment lets the PTY start and the master take all of \<open>d\<close>. A step of the pump is
  a read that returns at most 4096 bytes (the size of the pump's buffer) and no error,
  followed by a successful write on the connection.
\<close>

definition receives_DATA :: "recv \<times> env \<Rightarrow> byte list \<Rightarrow> bool" where
  "receives_DATA x d =
     (case fst x of
        Recv raw \<Rightarrow>
          UnmarshalMessage raw = Inr \<lparr>Type = MsgTypeData, Data = d\<rparr>
          \<and> start_res (snd x) = None \<and> write_res (snd x) = (length d, None)
      | RecvErr err \<Rightarrow> False)"

definition read_ok :: "(byte list \<times> go_error option) \<times> go_error option \<Rightarrow> bool" where
  "read_ok x = (snd (fst x) = None \<and> length (fst (fst x)) \<le> 4096 \<and> snd x = None)"

text \<open>
  Concrete values for the examples: an environment in which every call succeeds (the
  write on the master taking \<open>n\<close> bytes), the handle that \<^verbatim>\<open>NewPTY(80, 24)\<close> returns,
  and a session that has created it.
\<close>

definition env_ok :: "nat \<Rightarrow> env" where
  "env_ok n = \<lparr>start_res = None, write_res = (n, None), setsize_res = None,
               signal_res = None, ws_res = None\<rparr>"

definition pty0 :: PTY where
  "pty0 = \<lparr>cmd = True, cmd_Process = True, pty_file = True, closed = False,
           calls = [StartWithSize 80 24]\<rparr>"

definition session_live :: Session where
  "session_live = createSession\<lparr>pty := Some pty0, pumps := 1\<rparr>"

section \<open>Properties of the codec\<close>

lemma LittleEndian_Uint16_PutUint16: "LittleEndian_Uint16 (LittleEndian_PutUint16 v) = v"
  unfolding LittleEndian_Uint16_def LittleEndian_PutUint16_def
  apply simp
  apply (rule bit_word_eqI)
  apply (auto simp add: bit_simps)
  done

lemma length_PutUint16: "length (LittleEndian_PutUint16 v) = 2"
  by (simp add: LittleEndian_PutUint16_def)

lemma slice_header:
  "slice (t # LittleEndian_PutUint16 v @ d) (Suc 0) 3 = LittleEndian_PutUint16 v"
  by (simp add: slice_def LittleEndian_PutUint16_def)

text \<open>The 16-bit sum \<^verbatim>\<open>3+dataLen\<close>: exact up to 65532, wrapped to 0, 1, 2 above.\<close>

lemma unat_3_plus_nowrap: "n \<le> 65532 \<Longrightarrow> unat (3 + (of_nat n :: uint16)) = 3 + n"
  by (simp add: unat_word_ariths unat_of_nat)

lemma unat_3_plus_wrap:
  assumes "65533 \<le> n" "n \<le> 65535"
  shows "unat (3 + (of_nat n :: uint16)) = n - 65533"
proof -
  have "(3 + n) mod 65536 = (3 + n - 65536) mod 65536"
    using assms by (simp add: le_mod_geq)
  also have "\<dots> = n - 65533"
    using assms by simp
  finally show ?thesis
    using assms by (simp add: unat_word_ariths unat_of_nat)
qed

lemma Marshal_ok:
  "length d \<le> 65535 \<Longrightarrow>
   Marshal \<lparr>Type = t, Data = d\<rparr> = Inr ([t] @ LittleEndian_PutUint16 (of_nat (length d)) @ d)"
  by (simp add: Marshal_def)

lemma Marshal_length:
  "Marshal \<lparr>Type = t, Data = d\<rparr> = Inr buf \<Longrightarrow> length buf = 3 + length d"
  by (auto simp: Marshal_def length_PutUint16 split: if_splits)

lemma Marshal_too_large:
  "(Marshal m = Inl ''message data too large'') = (65535 < length (Data m))"
  by (simp add: Marshal_def)

text \<open>Encoding then decoding gives the frame back as long as the payload has at most
  65532 bytes.\<close>

lemma UnmarshalMessage_wire:
  "length d \<le> 65532 \<Longrightarrow>
   UnmarshalMessage ([t] @ LittleEndian_PutUint16 (of_nat (length d)) @ d)
     = Inr \<lparr>Type = t, Data = d\<rparr>"
  by (simp add: UnmarshalMessage_def slice_header LittleEndian_Uint16_PutUint16
      unat_3_plus_nowrap Let_def length_PutUint16 slice_def)

text \<open>With 65533 to 65535 bytes of payload the decoder panics on the encoder's output.\<close>

lemma UnmarshalMessage_wire_panic:
  "65533 \<le> length d \<Longrightarrow> length d \<le> 65535 \<Longrightarrow>
   UnmarshalMessage ([t] @ LittleEndian_PutUint16 (of_nat (length d)) @ d)
     = Inl (Panic ''slice bounds out of range'')"
  by (simp add: UnmarshalMessage_def slice_header LittleEndian_Uint16_PutUint16
      unat_3_plus_wrap Let_def length_PutUint16)

text \<open>
  C5 (round trip of the codec). The encoder accepts every payload of at most 65535
  bytes, and its output has 3 + |payload| bytes; but for a DATA frame with 65533 zero
  bytes of payload the decoder does not give the frame back: \<^verbatim>\<open>3+dataLen\<close> wraps to 0 in
  16 bits, the length check passes and \<^verbatim>\<open>data[3:0]\<close> panics.
\<close>

theorem Marshal_UnmarshalMessage_65533_panics:
  "Marshal \<lparr>Type = MsgTypeData, Data = replicate 65533 0\<rparr>
     = Inr ([0x01, 0xFD, 0xFF] @ replicate 65533 0)
   \<and> length ([0x01, 0xFD, 0xFF] @ replicate 65533 (0 :: byte)) = 3 + 65533
   \<and> UnmarshalMessage ([0x01, 0xFD, 0xFF] @ replicate 65533 0)
     = Inl (Panic ''slice bounds out of range'')"
  by (simp add: Marshal_def MsgTypeData_def LittleEndian_PutUint16_def
      UnmarshalMessage_def slice_def LittleEndian_Uint16_def)

text \<open>
  C6 (when the codec fails). On the three bytes \<^verbatim>\<open>01 FF FF\<close> the length field is 65535,
  so the input is shorter than 3 + 65535 and the decoder should return the error
  ``incomplete message''; it panics instead, because \<^verbatim>\<open>3+dataLen\<close> is 2 in 16 bits. On
  the same header followed by 65535 payload bytes, a complete frame, it panics as well.
\<close>

theorem UnmarshalMessage_01_FF_FF_panics:
  "UnmarshalMessage [0x01, 0xFF, 0xFF] = Inl (Panic ''slice bounds out of range'')
   \<and> UnmarshalMessage [0x01, 0xFF, 0xFF] \<noteq> Inl (Error ''incomplete message'')
   \<and> UnmarshalMessage ([0x01, 0xFF, 0xFF] @ replicate 65535 0)
       = Inl (Panic ''slice bounds out of range'')"
  by (simp add: UnmarshalMessage_def slice_def LittleEndian_Uint16_def)

text \<open>
  C10 (decoding is prefix based). An input of 65546 bytes whose length field is 65533
  has at least 3 + 65533 bytes, yet the decoder does not return the 65533 bytes after
  the header: it panics. Below 65533 the decoder does return the prefix and ignores what
  follows, as \<open>UnmarshalMessage_prefix\<close> shows.
\<close>

theorem UnmarshalMessage_long_frame_panics:
  "3 + 65533 \<le> length ([0x01, 0xFD, 0xFF] @ replicate 65543 (0x41 :: byte))
   \<and> LittleEndian_Uint16 (slice ([0x01, 0xFD, 0xFF] @ replicate 65543 (0x41 :: byte)) 1 3) = 65533
   \<and> UnmarshalMessage ([0x01, 0xFD, 0xFF] @ replicate 65543 0x41)
       = Inl (Panic ''slice bounds out of range'')"
  by (simp add: UnmarshalMessage_def slice_def LittleEndian_Uint16_def)

lemma UnmarshalMessage_prefix:
  assumes "3 \<le> length data"
    and "unat (LittleEndian_Uint16 (slice data 1 3)) \<le> 65532"
    and "3 + unat (LittleEndian_Uint16 (slice data 1 3)) \<le> length data"
  shows "UnmarshalMessage data
    = Inr \<lparr>Type = data ! 0,
           Data = take (unat (LittleEndian_Uint16 (slice data 1 3))) (drop 3 data)\<rparr>"
proof -
  let ?L = "LittleEndian_Uint16 (slice data 1 3)"
  have "unat (3 + ?L) = 3 + unat ?L"
    using assms(2) by (simp add: unat_word_ariths)
  then show ?thesis
    using assms by (simp add: UnmarshalMessage_def Let_def slice_def)
qed

section \<open>The PTY handle after Close\<close>

lemma closed_PTY_Close: "closed (PTY_Close goos p)"
  by (simp add: PTY_Close_def)

text \<open>
  C7, as the claim states it, fails for the read: on a closed handle \<^verbatim>\<open>Read\<close> returns
  \<^verbatim>\<open>io.EOF\<close>, the error of a clean end of file, and not \<^verbatim>\<open>io.ErrClosedPipe\<close>, the error
  that \<^verbatim>\<open>Write\<close>, \<^verbatim>\<open>Resize\<close> and \<^verbatim>\<open>SendSignal\<close> return on a closed handle.
\<close>

theorem PTY_Read_after_Close_is_EOF:
  "fst (PTY_Read (PTY_Close ''linux'' pty0) ([104], None)) = ([], Some ''EOF'')
   \<and> fst (PTY_Write (PTY_Close ''linux'' pty0) [104] (1, None)) = (0, Some io_ErrClosedPipe)
   \<and> Some ''EOF'' \<noteq> Some io_ErrClosedPipe"
  by (simp add: PTY_Read_def PTY_Write_def PTY_Close_def pty0_def io_EOF_def io_ErrClosedPipe_def)

text \<open>
  C7, amended: once \<^verbatim>\<open>Close\<close> has run the handle is closed; \<^verbatim>\<open>Write\<close>, \<^verbatim>\<open>Resize\<close> and
  \<^verbatim>\<open>SendSignal\<close> fail with \<^verbatim>\<open>io.ErrClosedPipe\<close> and \<^verbatim>\<open>Read\<close> fails with \<^verbatim>\<open>io.EOF\<close> and
  no bytes; none of the four reaches the master or the child (the handle, with its record
  of calls, is returned as it was); and a second \<^verbatim>\<open>Close\<close> leaves the handle unchanged.
\<close>

theorem PTY_after_Close:
  "closed (PTY_Close goos p)
   \<and> PTY_Read (PTY_Close goos p) osr = (([], Some io_EOF), PTY_Close goos p)
   \<and> PTY_Write (PTY_Close goos p) d osw = ((0, Some io_ErrClosedPipe), PTY_Close goos p)
   \<and> PTY_Resize (PTY_Close goos p) c r oss = (Some io_ErrClosedPipe, PTY_Close goos p)
   \<and> PTY_SendSignal goos (PTY_Close goos p) sig osg = (Some io_ErrClosedPipe, PTY_Close goos p)
   \<and> PTY_Close goos (PTY_Close goos p) = PTY_Close goos p
   \<and> io_EOF \<noteq> io_ErrClosedPipe"
  by (simp add: closed_PTY_Close PTY_Read_def PTY_Write_def PTY_Resize_def PTY_SendSignal_def
      io_EOF_def io_ErrClosedPipe_def)
    (simp add: PTY_Close_def)

text \<open>The amended C7 on the handle of \<^verbatim>\<open>NewPTY(80, 24)\<close> under Linux.\<close>

theorem PTY_after_Close_witness:
  "PTY_Close ''linux'' pty0
     = pty0\<lparr>closed := True, calls := [StartWithSize 80 24, CmdCancel, MasterClose, ProcSignal 15]\<rparr>
   \<and> PTY_Read (PTY_Close ''linux'' pty0) ([104], None) = (([], Some ''EOF''), PTY_Close ''linux'' pty0)
   \<and> PTY_SendSignal ''linux'' (PTY_Close ''linux'' pty0) 2 None
       = (Some ''io: read/write on closed pipe'', PTY_Close ''linux'' pty0)
   \<and> PTY_Close ''linux'' (PTY_Close ''linux'' pty0) = PTY_Close ''linux'' pty0"
  using PTY_after_Close [of "''linux''" pty0 "([104], None)" "[]" "(0, None)" 0 0 None 2 None]
  by (simp add: PTY_Close_def pty0_def io_EOF_def io_ErrClosedPipe_def SIGTERM_def)

section \<open>Sending on the connection\<close>

lemma sendMessage_keeps:
  "pty (sendMessage s m ws) = pty s" "closeOnce (sendMessage s m ws) = closeOnce s"
  "conn_closed (sendMessage s m ws) = conn_closed s" "pumps (sendMessage s m ws) = pumps s"
  by (simp_all add: sendMessage_def cancel_def split: sum.splits option.splits)

lemma sendError_keeps:
  "pty (sendError s m ws) = pty s" "closeOnce (sendError s m ws) = closeOnce s"
  by (simp_all add: sendError_def sendMessage_keeps)

lemma sendMessage_ok:
  "length (Data m) \<le> 65535 \<Longrightarrow>
   sendMessage s m None
     = s\<lparr>conn_sent := conn_sent s @
          [ [Type m] @ LittleEndian_PutUint16 (of_nat (length (Data m))) @ Data m]\<rparr>"
  by (simp add: sendMessage_def Marshal_def)

lemma sendMessage_None_ctx: "ctx_done (sendMessage s m None) = ctx_done s"
  by (simp add: sendMessage_def split: sum.splits)

lemma sendError_ok:
  "length msg \<le> 65535 \<Longrightarrow>
   sendError s msg None
     = s\<lparr>conn_sent := conn_sent s @
          [ [MsgTypeError] @ LittleEndian_PutUint16 (of_nat (length msg)) @ bytes_of msg]\<rparr>"
  by (simp add: sendError_def sendMessage_ok bytes_of_def)

lemma sendError_None_ctx: "ctx_done (sendError s msg None) = ctx_done s"
  by (simp add: sendError_def sendMessage_None_ctx)

lemma UnmarshalMessage_frame:
  "length d \<le> 65532 \<Longrightarrow> UnmarshalMessage (frame t d) = Inr \<lparr>Type = t, Data = d\<rparr>"
  unfolding frame_def by (rule UnmarshalMessage_wire)

lemma handleMessage_frame:
  "length d \<le> 65532 \<Longrightarrow>
   handleMessage goos s (frame t d) e =
     (if t = MsgTypeData then lift_err (handleData s d e)
      else if t = MsgTypeResize then lift_err (handleResize s d e)
      else if t = MsgTypeControl then lift_err (handleControl goos s d e)
      else if t = MsgTypeHeartbeat then (None, s)
      else if t = MsgTypeClose then (None, cancel s)
      else (Some (Error (''unknown message type: '' @ dec (unat t))), s))"
  by (simp add: handleMessage_def UnmarshalMessage_frame)

lemma sendError_frame:
  "length msg \<le> 65535 \<Longrightarrow>
   sendError s msg None = s\<lparr>conn_sent := conn_sent s @ [frame MsgTypeError (bytes_of msg)]\<rparr>"
  by (simp add: sendError_ok frame_def bytes_of_def)

lemma readLoop_ctx_done: "ctx_done s \<Longrightarrow> readLoop goos s ins = (s, Returned)"
  by (cases ins) auto

lemma readLoop_step_error:
  "\<not> ctx_done s \<Longrightarrow> handleMessage goos s raw e = (Some (Error err), s') \<Longrightarrow>
   readLoop goos s ((Recv raw, e) # rest)
     = readLoop goos (sendError s' (''Error: '' @ err) (ws_res e)) rest"
  by simp

lemma readLoop_step_ok:
  "\<not> ctx_done s \<Longrightarrow> handleMessage goos s raw e = (None, s') \<Longrightarrow>
   readLoop goos s ((Recv raw, e) # rest) = readLoop goos s' rest"
  by simp

section \<open>Resize payload\<close>

lemma Uint16_slices:
  "4 \<le> length data \<Longrightarrow>
     LittleEndian_Uint16 (slice data 0 2) = LittleEndian_Uint16 [data ! 0, data ! 1]"
  "4 \<le> length data \<Longrightarrow>
     LittleEndian_Uint16 (slice data 2 4) = LittleEndian_Uint16 [data ! 2, data ! 3]"
  by (simp_all add: LittleEndian_Uint16_def slice_def)

lemma UnmarshalResizeData_ok:
  "4 \<le> length data \<Longrightarrow>
   UnmarshalResizeData data
     = Inr \<lparr>Cols = LittleEndian_Uint16 [data ! 0, data ! 1],
            Rows = LittleEndian_Uint16 [data ! 2, data ! 3]\<rparr>"
  by (simp add: UnmarshalResizeData_def Uint16_slices)

lemma handleResize_short:
  "length data < 4 \<Longrightarrow> pty s = Some p \<Longrightarrow>
   handleResize s data e = (Some ''failed to unmarshal resize data: invalid resize data'', s)"
  by (simp add: handleResize_def UnmarshalResizeData_def)

lemma handleResize_short_fresh:
  "length data < 4 \<Longrightarrow> pty s = None \<Longrightarrow> start_res e = None \<Longrightarrow>
   handleResize s data e
     = (Some ''failed to unmarshal resize data: invalid resize data'',
        s\<lparr>pty := Some pty0, pumps := pumps s + 1\<rparr>)"
  by (simp add: handleResize_def UnmarshalResizeData_def NewPTY_def pty0_def)

lemma handleResize_live:
  "4 \<le> length data \<Longrightarrow> pty s = Some p \<Longrightarrow> \<not> closed p \<Longrightarrow>
   handleResize s data e
     = (setsize_res e,
        s\<lparr>pty := Some (p\<lparr>calls := calls p @
             [Setsize (LittleEndian_Uint16 [data ! 0, data ! 1])
                      (LittleEndian_Uint16 [data ! 2, data ! 3])]\<rparr>)\<rparr>)"
  by (simp add: handleResize_def UnmarshalResizeData_ok PTY_Resize_def)

lemma handleResize_fresh:
  "4 \<le> length data \<Longrightarrow> pty s = None \<Longrightarrow> start_res e = None \<Longrightarrow>
   handleResize s data e
     = (setsize_res e,
        s\<lparr>pty := Some (pty0\<lparr>calls := [StartWithSize 80 24,
               Setsize (LittleEndian_Uint16 [data ! 0, data ! 1])
                       (LittleEndian_Uint16 [data ! 2, data ! 3])]\<rparr>),
          pumps := pumps s + 1\<rparr>)"
  by (simp add: handleResize_def UnmarshalResizeData_ok PTY_Resize_def NewPTY_def pty0_def)

lemma readLoop_Resize_frame:
  assumes "\<not> ctx_done s" and "length data \<le> 65532"
  shows "handleResize s data e = (Some err, s') \<Longrightarrow>
         readLoop goos s ((Recv (frame MsgTypeResize data), e) # rest)
           = readLoop goos (sendError s' (''Error: '' @ err) (ws_res e)) rest"
    and "handleResize s data e = (None, s') \<Longrightarrow>
         readLoop goos s ((Recv (frame MsgTypeResize data), e) # rest) = readLoop goos s' rest"
  using assms
  by (simp_all add: handleMessage_frame lift_err_def MsgTypeResize_def MsgTypeData_def)

lemma UnmarshalResizeData_Marshal: "UnmarshalResizeData (ResizeData_Marshal r) = Inr r"
proof -
  have "LittleEndian_Uint16 [ucast v, ucast (drop_bit 8 v)] = v" for v :: uint16
    using LittleEndian_Uint16_PutUint16 [of v] by (simp add: LittleEndian_PutUint16_def)
  then show ?thesis
    by (simp add: ResizeData_Marshal_def UnmarshalResizeData_def slice_def
        LittleEndian_PutUint16_def)
qed

text \<open>
  C4, as the claim states it, fails: the 5-byte payload \<^verbatim>\<open>00 00 00 00 09\<close> is consumed,
  decodes to cols = 0 and rows = 0, and \<^verbatim>\<open>handleResize\<close> applies that size to the PTY
  without an error.
\<close>

theorem UnmarshalResizeData_zero_and_long_accepted:
  "UnmarshalResizeData [0, 0, 0, 0, 9] = Inr \<lparr>Cols = 0, Rows = 0\<rparr>
   \<and> handleResize session_live [0, 0, 0, 0, 9] (env_ok 0)
       = (None, session_live\<lparr>pty := Some (pty0\<lparr>calls := [StartWithSize 80 24, Setsize 0 0]\<rparr>)\<rparr>)"
  by (simp add: UnmarshalResizeData_def LittleEndian_Uint16_def slice_def handleResize_def
      session_live_def createSession_def pty0_def env_ok_def PTY_Resize_def)

text \<open>
  C4, amended: a RESIZE payload is rejected exactly when it has fewer than 4 bytes. Then
  the decoder returns ``invalid resize data'', \<^verbatim>\<open>handleResize\<close> returns
  ``failed to unmarshal resize data: invalid resize data'' without resizing the PTY (a
  session without a PTY has started one before, with 80 columns and 24 rows), and the
  reader loop sends that error to the peer in an ERROR frame and goes on. With 4 bytes
  or more the payload is consumed: cols and rows are the little-endian 16-bit numbers at
  offsets 0..1 and 2..3, further bytes are ignored, and \<^verbatim>\<open>handleResize\<close> applies the
  decoded size to the live or newly started PTY as it is, zero included; when the resize
  succeeds the loop goes on without sending anything (stated for frames of at most 65532
  payload bytes). A session without a PTY that cannot start one answers
  ``failed to create PTY'' whatever the payload.
\<close>

theorem handleResize_at_least_four:
  "(UnmarshalResizeData data = Inl ''invalid resize data'') = (length data < 4)
   \<and> (4 \<le> length data \<longrightarrow>
        UnmarshalResizeData data
          = Inr \<lparr>Cols = LittleEndian_Uint16 [data ! 0, data ! 1],
                 Rows = LittleEndian_Uint16 [data ! 2, data ! 3]\<rparr>)
   \<and> (length data < 4 \<and> pty s = Some p \<longrightarrow>
        handleResize s data e
          = (Some ''failed to unmarshal resize data: invalid resize data'', s)
        \<and> (\<not> ctx_done s \<longrightarrow>
             readLoop goos s ((Recv (frame MsgTypeResize data), e) # rest)
               = readLoop goos
                   (sendError s ''Error: failed to unmarshal resize data: invalid resize data''
                      (ws_res e)) rest))
   \<and> (length data < 4 \<and> pty s = None \<and> start_res e = None \<longrightarrow>
        handleResize s data e
          = (Some ''failed to unmarshal resize data: invalid resize data'',
             s\<lparr>pty := Some pty0, pumps := pumps s + 1\<rparr>)
        \<and> (\<not> ctx_done s \<longrightarrow>
             readLoop goos s ((Recv (frame MsgTypeResize data), e) # rest)
               = readLoop goos
                   (sendError (s\<lparr>pty := Some pty0, pumps := pumps s + 1\<rparr>)
                      ''Error: failed to unmarshal resize data: invalid resize data''
                      (ws_res e)) rest))
   \<and> (pty s = None \<and> start_res e = Some err \<longrightarrow>
        handleResize s data e = (Some (''failed to create PTY: '' @ err), s))
   \<and> (ws_res e = None \<longrightarrow>
        sendError t ''Error: failed to unmarshal resize data: invalid resize data'' (ws_res e)
          = t\<lparr>conn_sent := conn_sent t @
               [frame MsgTypeError
                  (bytes_of ''Error: failed to unmarshal resize data: invalid resize data'')]\<rparr>)
   \<and> (4 \<le> length data \<and> pty s = Some p \<and> \<not> closed p \<longrightarrow>
        handleResize s data e
          = (setsize_res e,
             s\<lparr>pty := Some (p\<lparr>calls := calls p @
                  [Setsize (LittleEndian_Uint16 [data ! 0, data ! 1])
                           (LittleEndian_Uint16 [data ! 2, data ! 3])]\<rparr>)\<rparr>))
   \<and> (4 \<le> length data \<and> pty s = None \<and> start_res e = None \<longrightarrow>
        handleResize s data e
          = (setsize_res e,
             s\<lparr>pty := Some (pty0\<lparr>calls := [StartWithSize 80 24,
                    Setsize (LittleEndian_Uint16 [data ! 0, data ! 1])
                            (LittleEndian_Uint16 [data ! 2, data ! 3])]\<rparr>),
               pumps := pumps s + 1\<rparr>))
   \<and> (4 \<le> length data \<and> length data \<le> 65532 \<and> pty s = Some p \<and> \<not> closed p
        \<and> \<not> ctx_done s \<and> setsize_res e = None \<longrightarrow>
        readLoop goos s ((Recv (frame MsgTypeResize data), e) # rest)
          = readLoop goos
              (s\<lparr>pty := Some (p\<lparr>calls := calls p @
                  [Setsize (LittleEndian_Uint16 [data ! 0, data ! 1])
                           (LittleEndian_Uint16 [data ! 2, data ! 3])]\<rparr>)\<rparr>) rest)"
proof (intro conjI impI)
  show "(UnmarshalResizeData data = Inl ''invalid resize data'') = (length data < 4)"
    by (simp add: UnmarshalResizeData_def)
next
  assume "4 \<le> length data"
  then show "UnmarshalResizeData data
          = Inr \<lparr>Cols = LittleEndian_Uint16 [data ! 0, data ! 1],
                 Rows = LittleEndian_Uint16 [data ! 2, data ! 3]\<rparr>"
    by (rule UnmarshalResizeData_ok)
next
  assume a: "length data < 4 \<and> pty s = Some p"
  then show h: "handleResize s data e
          = (Some ''failed to unmarshal resize data: invalid resize data'', s)"
    by (simp add: handleResize_short)
  assume "\<not> ctx_done s"
  then show "readLoop goos s ((Recv (frame MsgTypeResize data), e) # rest)
               = readLoop goos
                   (sendError s ''Error: failed to unmarshal resize data: invalid resize data''
                      (ws_res e)) rest"
    using readLoop_Resize_frame(1) [OF _ _ h] a by simp
next
  assume a: "length data < 4 \<and> pty s = None \<and> start_res e = None"
  then show h: "handleResize s data e
          = (Some ''failed to unmarshal resize data: invalid resize data'',
             s\<lparr>pty := Some pty0, pumps := pumps s + 1\<rparr>)"
    by (simp add: handleResize_short_fresh)
  assume "\<not> ctx_done s"
  then show "readLoop goos s ((Recv (frame MsgTypeResize data), e) # rest)
               = readLoop goos
                   (sendError (s\<lparr>pty := Some pty0, pumps := pumps s + 1\<rparr>)
                      ''Error: failed to unmarshal resize data: invalid resize data''
                      (ws_res e)) rest"
    using readLoop_Resize_frame(1) [OF _ _ h] a by simp
next
  assume "pty s = None \<and> start_res e = Some err"
  then show "handleResize s data e = (Some (''failed to create PTY: '' @ err), s)"
    by (simp add: handleResize_def NewPTY_def)
next
  assume "ws_res e = None"
  then show "sendError t ''Error: failed to unmarshal resize data: invalid resize data'' (ws_res e)
          = t\<lparr>conn_sent := conn_sent t @
               [frame MsgTypeError
                  (bytes_of ''Error: failed to unmarshal resize data: invalid resize data'')]\<rparr>"
    by (simp add: sendError_frame)
next
  assume "4 \<le> length data \<and> pty s = Some p \<and> \<not> closed p"
  then show "handleResize s data e
          = (setsize_res e,
             s\<lparr>pty := Some (p\<lparr>calls := calls p @
                  [Setsize (LittleEndian_Uint16 [data ! 0, data ! 1])
                           (LittleEndian_Uint16 [data ! 2, data ! 3])]\<rparr>)\<rparr>)"
    by (simp add: handleResize_live)
next
  assume "4 \<le> length data \<and> pty s = None \<and> start_res e = None"
  then show "handleResize s data e
          = (setsize_res e,
             s\<lparr>pty := Some (pty0\<lparr>calls := [StartWithSize 80 24,
                    Setsize (LittleEndian_Uint16 [data ! 0, data ! 1])
                            (LittleEndian_Uint16 [data ! 2, data ! 3])]\<rparr>),
               pumps := pumps s + 1\<rparr>)"
    by (simp add: handleResize_fresh)
next
  assume a: "4 \<le> length data \<and> length data \<le> 65532 \<and> pty s = Some p \<and> \<not> closed p
        \<and> \<not> ctx_done s \<and> setsize_res e = None"
  then have h: "handleResize s data e
          = (None,
             s\<lparr>pty := Some (p\<lparr>calls := calls p @
                  [Setsize (LittleEndian_Uint16 [data ! 0, data ! 1])
                           (LittleEndian_Uint16 [data ! 2, data ! 3])]\<rparr>)\<rparr>)"
    by (simp add: handleResize_live)
  show "readLoop goos s ((Recv (frame MsgTypeResize data), e) # rest)
          = readLoop goos
              (s\<lparr>pty := Some (p\<lparr>calls := calls p @
                  [Setsize (LittleEndian_Uint16 [data ! 0, data ! 1])
                           (LittleEndian_Uint16 [data ! 2, data ! 3])]\<rparr>)\<rparr>) rest"
    using readLoop_Resize_frame(2) [OF _ _ h] a by simp
qed

text \<open>The amended C4 on the frame \<^verbatim>\<open>02 03 00 01 00 02\<close> (a 3-byte payload) and on the
  payload \<^verbatim>\<open>84 00 32 00\<close> (132 columns, 50 rows), for a session with a live PTY.\<close>

theorem handleResize_at_least_four_witness:
  "length [1, 0, 2 :: byte] < 4 \<and> pty session_live = Some pty0 \<and> \<not> closed pty0
   \<and> \<not> ctx_done session_live \<and> ws_res (env_ok 0) = None
   \<and> frame MsgTypeResize [1, 0, 2] = [0x02, 3, 0, 1, 0, 2]
   \<and> readLoop ''linux'' session_live [(Recv [0x02, 3, 0, 1, 0, 2], env_ok 0)]
       = (session_live\<lparr>conn_sent :=
            [ [0x04, 59, 0]
              @ bytes_of ''Error: failed to unmarshal resize data: invalid resize data'']\<rparr>,
          Running)
   \<and> (4::nat) \<le> length [132, 0, 50, 0 :: byte]
   \<and> UnmarshalResizeData [132, 0, 50, 0] = Inr \<lparr>Cols = 132, Rows = 50\<rparr>
   \<and> handleResize session_live [132, 0, 50, 0] (env_ok 0)
       = (None, session_live\<lparr>pty := Some (pty0\<lparr>calls := [StartWithSize 80 24, Setsize 132 50]\<rparr>)\<rparr>)"
proof -
  let ?msg = "''Error: failed to unmarshal resize data: invalid resize data''"
  have a: "length [1, 0, 2 :: byte] < 4 \<and> pty session_live = Some pty0"
    by (simp add: session_live_def createSession_def)
  have b: "\<not> closed pty0" "\<not> ctx_done session_live" "ws_res (env_ok 0) = None"
    by (simp_all add: pty0_def session_live_def createSession_def env_ok_def)
  have f: "frame MsgTypeResize [1, 0, 2] = [0x02, 3, 0, 1, 0, 2]"
    by (simp add: frame_def MsgTypeResize_def LittleEndian_PutUint16_def)
  have g: "frame MsgTypeError (bytes_of ?msg) = [0x04, 59, 0] @ bytes_of ?msg"
    by (simp add: frame_def MsgTypeError_def LittleEndian_PutUint16_def bytes_of_def)
  note T = handleResize_at_least_four [where data = "[1, 0, 2]" and s = session_live
      and p = pty0 and e = "env_ok 0" and goos = "''linux''" and rest = "[]"
      and t = session_live]
  from T a b(2) have step:
    "readLoop ''linux'' session_live [(Recv (frame MsgTypeResize [1, 0, 2]), env_ok 0)]
       = readLoop ''linux'' (sendError session_live ?msg (ws_res (env_ok 0))) []"
    by blast
  from T b(3) have send: "sendError session_live ?msg (ws_res (env_ok 0))
       = session_live\<lparr>conn_sent := conn_sent session_live @ [frame MsgTypeError (bytes_of ?msg)]\<rparr>"
    by blast
  have r: "readLoop ''linux'' session_live [(Recv [0x02, 3, 0, 1, 0, 2], env_ok 0)]
       = (session_live\<lparr>conn_sent := [ [0x04, 59, 0] @ bytes_of ?msg]\<rparr>, Running)"
    using step unfolding send f g by (simp add: session_live_def createSession_def)
  note U = handleResize_at_least_four [where data = "[132, 0, 50, 0]" and s = session_live
      and p = pty0 and e = "env_ok 0"]
  have c: "(4::nat) \<le> length [132, 0, 50, 0 :: byte]" by simp
  from U c have d: "UnmarshalResizeData [132, 0, 50, 0]
      = Inr \<lparr>Cols = LittleEndian_Uint16 [ [132, 0, 50, 0] ! 0, [132, 0, 50, 0] ! 1],
             Rows = LittleEndian_Uint16 [ [132, 0, 50, 0] ! 2, [132, 0, 50, 0] ! 3]\<rparr>"
    by blast
  from U c a b(1) have h: "handleResize session_live [132, 0, 50, 0] (env_ok 0)
      = (setsize_res (env_ok 0),
         session_live\<lparr>pty := Some (pty0\<lparr>calls := calls pty0 @
             [Setsize (LittleEndian_Uint16 [ [132, 0, 50, 0] ! 0, [132, 0, 50, 0] ! 1])
                      (LittleEndian_Uint16 [ [132, 0, 50, 0] ! 2, [132, 0, 50, 0] ! 3])]\<rparr>)\<rparr>)"
    by blast
  have d': "UnmarshalResizeData [132, 0, 50, 0] = Inr \<lparr>Cols = 132, Rows = 50\<rparr>"
    unfolding d by (simp add: LittleEndian_Uint16_def)
  have h': "handleResize session_live [132, 0, 50, 0] (env_ok 0)
       = (None, session_live\<lparr>pty := Some (pty0\<lparr>calls := [StartWithSize 80 24, Setsize 132 50]\<rparr>)\<rparr>)"
    unfolding h by (simp add: LittleEndian_Uint16_def env_ok_def pty0_def)
  from a b f r c d' h' show ?thesis by blast
qed

section \<open>The reader loop: PTY write errors\<close>

text \<open>
  C2, as the claim states it, fails: on a session with a live PTY, a DATA frame whose
  write on the master returns ``input/output error'' is answered with an ERROR frame; the
  cancellation is not fired, \<^verbatim>\<open>cleanup\<close> does not run, and the next DATA frame is written to
  the PTY by a loop that is still running.
\<close>

theorem write_error_session_stays_open:
  "handleConnection ''linux'' session_live
     [(Recv [0x01, 1, 0, 97], (env_ok 0)\<lparr>write_res := (0, Some ''input/output error'')\<rparr>),
      (Recv [0x01, 1, 0, 98], env_ok 1)] True
   = (session_live
        \<lparr>conn_sent := [ [0x04, 25, 0] @ bytes_of ''Error: input/output error''],
         pty := Some (pty0\<lparr>calls := [StartWithSize 80 24, MasterWrite [97] 0, MasterWrite [98] 1]\<rparr>)\<rparr>,
      Running)
   \<and> \<not> ctx_done (fst (handleConnection ''linux'' session_live
     [(Recv [0x01, 1, 0, 97], (env_ok 0)\<lparr>write_res := (0, Some ''input/output error'')\<rparr>),
      (Recv [0x01, 1, 0, 98], env_ok 1)] True))
   \<and> handleConnection ''linux'' session_live
     [(Recv [0x01, 1, 0, 97], (env_ok 0)\<lparr>write_res := (0, Some ''input/output error'')\<rparr>),
      (Recv [0x01, 1, 0, 98], env_ok 1)] False
   = (session_live
        \<lparr>conn_sent := [ [0x04, 25, 0] @ bytes_of ''Error: input/output error''],
         pty := Some (pty0\<lparr>calls := [StartWithSize 80 24, MasterWrite [97] 0, MasterWrite [98] 1]\<rparr>)\<rparr>,
      Running)
   \<and> \<not> ctx_done (fst (handleConnection ''linux'' session_live
     [(Recv [0x01, 1, 0, 97], (env_ok 0)\<lparr>write_res := (0, Some ''input/output error'')\<rparr>),
      (Recv [0x01, 1, 0, 98], env_ok 1)] False))"
  by (simp add: handleConnection_def handleMessage_def UnmarshalMessage_def slice_def
      LittleEndian_Uint16_def MsgTypeData_def lift_err_def handleData_def session_live_def
      createSession_def pty0_def env_ok_def PTY_Write_def sendError_def sendMessage_def
      Marshal_def MsgTypeError_def LittleEndian_PutUint16_def bytes_of_def cancel_def)

lemma handleMessage_Data_write_error:
  assumes "pty s = Some p" "\<not> closed p"
    and "UnmarshalMessage raw = Inr \<lparr>Type = MsgTypeData, Data = d\<rparr>"
    and "write_res e = (n, Some err)"
  shows "handleMessage goos s raw e
     = (Some (Error err), s\<lparr>pty := Some (p\<lparr>calls := calls p @ [MasterWrite d n]\<rparr>)\<rparr>)"
  using assms by (simp add: handleMessage_def lift_err_def handleData_def PTY_Write_def)

text \<open>
  C2, amended: for a session with a live PTY, if writing a DATA frame's payload to the PTY
  returns an error, the reader loop reports it to the peer in an ERROR frame
  (``Error: '' followed by the error text) and goes on with the next frame; the session's
  cancellation is not fired when that ERROR frame is sent successfully.
\<close>

theorem write_error_reported_loop_continues:
  assumes "\<not> ctx_done s" and "pty s = Some p" and "\<not> closed p"
    and "UnmarshalMessage raw = Inr \<lparr>Type = MsgTypeData, Data = d\<rparr>"
    and "write_res e = (n, Some err)"
  shows "readLoop goos s ((Recv raw, e) # rest)
           = readLoop goos
               (sendError (s\<lparr>pty := Some (p\<lparr>calls := calls p @ [MasterWrite d n]\<rparr>)\<rparr>)
                  (''Error: '' @ err) (ws_res e)) rest
         \<and> (ws_res e = None \<longrightarrow>
              \<not> ctx_done (sendError (s\<lparr>pty := Some (p\<lparr>calls := calls p @ [MasterWrite d n]\<rparr>)\<rparr>)
                  (''Error: '' @ err) (ws_res e)))
         \<and> (ws_res e = None \<and> length err \<le> 65528 \<longrightarrow>
              conn_sent (sendError (s\<lparr>pty := Some (p\<lparr>calls := calls p @ [MasterWrite d n]\<rparr>)\<rparr>)
                  (''Error: '' @ err) (ws_res e))
              = conn_sent s @ [ [MsgTypeError] @ LittleEndian_PutUint16 (of_nat (7 + length err))
                                @ bytes_of (''Error: '' @ err)])"
proof (intro conjI impI)
  show "readLoop goos s ((Recv raw, e) # rest)
           = readLoop goos
               (sendError (s\<lparr>pty := Some (p\<lparr>calls := calls p @ [MasterWrite d n]\<rparr>)\<rparr>)
                  (''Error: '' @ err) (ws_res e)) rest"
    using assms(1) handleMessage_Data_write_error [OF assms(2-5)] by simp
next
  assume "ws_res e = None"
  then show "\<not> ctx_done (sendError (s\<lparr>pty := Some (p\<lparr>calls := calls p @ [MasterWrite d n]\<rparr>)\<rparr>)
                  (''Error: '' @ err) (ws_res e))"
    using assms(1) by (simp add: sendError_None_ctx)
next
  assume "ws_res e = None \<and> length err \<le> 65528"
  then show "conn_sent (sendError (s\<lparr>pty := Some (p\<lparr>calls := calls p @ [MasterWrite d n]\<rparr>)\<rparr>)
                  (''Error: '' @ err) (ws_res e))
              = conn_sent s @ [ [MsgTypeError] @ LittleEndian_PutUint16 (of_nat (7 + length err))
                                @ bytes_of (''Error: '' @ err)]"
    by (simp add: sendError_ok)
qed

text \<open>The amended C2 on a live session whose write of \<^verbatim>\<open>a\<close> fails with ``EIO''.\<close>

theorem write_error_reported_loop_continues_witness:
  "\<not> ctx_done session_live \<and> pty session_live = Some pty0 \<and> \<not> closed pty0
   \<and> UnmarshalMessage [0x01, 1, 0, 97] = Inr \<lparr>Type = MsgTypeData, Data = [97]\<rparr>
   \<and> write_res ((env_ok 0)\<lparr>write_res := (0, Some ''EIO'')\<rparr>) = (0, Some ''EIO'')
   \<and> readLoop ''linux'' session_live
        [(Recv [0x01, 1, 0, 97], (env_ok 0)\<lparr>write_res := (0, Some ''EIO'')\<rparr>)]
      = (session_live
          \<lparr>conn_sent := [ [0x04, 10, 0] @ bytes_of ''Error: EIO''],
           pty := Some (pty0\<lparr>calls := [StartWithSize 80 24, MasterWrite [97] 0]\<rparr>)\<rparr>, Running)"
  using write_error_reported_loop_continues [of session_live pty0 "[0x01, 1, 0, 97]" "[97]"
      "(env_ok 0)\<lparr>write_res := (0, Some ''EIO'')\<rparr>" 0 "''EIO''" "''linux''" "[]"]
  by (simp add: UnmarshalMessage_def slice_def LittleEndian_Uint16_def MsgTypeData_def
      session_live_def createSession_def pty0_def env_ok_def sendError_def sendMessage_def
      Marshal_def MsgTypeError_def LittleEndian_PutUint16_def bytes_of_def)

section \<open>The reader loop: CONTROL frames\<close>





section \<open>The pump at end of file\<close>

text \<open>
  C3, as the claim states it, fails in its first half: when the read on the master
  returns \<^verbatim>\<open>io.EOF\<close> the pump returns and sends nothing, but the session's cancellation is
  not fired.
\<close>

theorem readFromPTY_EOF_example:
  "readFromPTY session_live [(([], Some ''EOF''), None)]
     = (session_live\<lparr>pty := Some (pty0\<lparr>calls := [StartWithSize 80 24, MasterRead]\<rparr>)\<rparr>, Returned)
   \<and> \<not> ctx_done (fst (readFromPTY session_live [(([], Some ''EOF''), None)]))"
  by (simp add: readFromPTY_def session_live_def createSession_def pty0_def PTY_Read_def)

text \<open>
  C3, amended: when the PTY-to-peer pump observes end of file from the PTY (the error
  text is \<^verbatim>\<open>EOF\<close>), it stops without sending an ERROR frame or any other frame, and it
  does not fire the session's cancellation: the session is left as it was.
\<close>

theorem readFromPTY_EOF:
  assumes "pty s = Some p" and "\<not> ctx_done s" and "snd (fst (PTY_Read p os)) = Some ''EOF''"
  shows "readFromPTY s ((os, ws) # rest) = (s\<lparr>pty := Some (snd (PTY_Read p os))\<rparr>, Returned)
         \<and> conn_sent (fst (readFromPTY s ((os, ws) # rest))) = conn_sent s
         \<and> ctx_done (fst (readFromPTY s ((os, ws) # rest))) = False"
proof -
  obtain buf err p' where r: "PTY_Read p os = ((buf, err), p')"
    by (metis surj_pair)
  with assms(3) have e: "err = Some ''EOF''" by simp
  have "readFromPTY s ((os, ws) # rest) = (s\<lparr>pty := Some p'\<rparr>, Returned)"
    using assms(1,2) r e by (simp add: readFromPTY_def)
  then show ?thesis using r assms(2) by simp
qed

text \<open>The amended C3 on a live session whose first read returns \<^verbatim>\<open>io.EOF\<close>.\<close>

theorem readFromPTY_EOF_witness:
  "pty session_live = Some pty0 \<and> \<not> ctx_done session_live
   \<and> snd (fst (PTY_Read pty0 ([], Some ''EOF''))) = Some ''EOF''
   \<and> conn_sent (fst (readFromPTY session_live [(([], Some ''EOF''), None)])) = []
   \<and> \<not> ctx_done (fst (readFromPTY session_live [(([], Some ''EOF''), None)]))"
  using readFromPTY_EOF [of session_live pty0 "([], Some ''EOF'')" None "[]"]
  by (simp add: session_live_def createSession_def pty0_def PTY_Read_def)

section \<open>Cleanup and the handler's session set\<close>















section \<open>Byte order in each direction\<close>

lemma master_received_snoc:
  "master_received (cs @ [MasterWrite d (length d)]) = master_received cs @ d"
  by (induction cs rule: master_received.induct) simp_all

lemma master_received_snoc_read:
  "master_received (cs @ [MasterRead]) = master_received cs"
  by (induction cs rule: master_received.induct) simp_all

lemma handleMessage_Data_ok:
  assumes "UnmarshalMessage raw = Inr \<lparr>Type = MsgTypeData, Data = d\<rparr>"
    and "start_res e = None" and "write_res e = (length d, None)"
    and "case pty s of None \<Rightarrow> True | Some p \<Rightarrow> \<not> closed p"
  shows "\<exists>s'. handleMessage goos s raw e = (None, s')
          \<and> (case pty s' of None \<Rightarrow> False | Some p \<Rightarrow> \<not> closed p)
          \<and> pty_received s' = pty_received s @ d
          \<and> conn_sent s' = conn_sent s \<and> ctx_done s' = ctx_done s"
proof (cases "pty s")
  case None
  then show ?thesis
    using assms
    by (simp add: handleMessage_def lift_err_def handleData_def NewPTY_def PTY_Write_def
        pty_received_def)
next
  case (Some p)
  then show ?thesis
    using assms
    by (simp add: handleMessage_def lift_err_def handleData_def PTY_Write_def
        pty_received_def master_received_snoc)
qed

lemma readLoop_DATA_frames:
  assumes "list_all2 receives_DATA ins ds"
    and "\<not> ctx_done s"
    and "case pty s of None \<Rightarrow> True | Some p \<Rightarrow> \<not> closed p"
  shows "snd (readLoop goos s ins) = Running
         \<and> pty_received (fst (readLoop goos s ins)) = pty_received s @ concat ds
         \<and> conn_sent (fst (readLoop goos s ins)) = conn_sent s"
  using assms
proof (induction ins ds arbitrary: s rule: list_all2_induct)
  case Nil
  then show ?case by simp
next
  case (Cons x ins d ds)
  obtain r e where x: "x = (r, e)" by (cases x)
  from Cons.hyps(1) x obtain raw where r: "r = Recv raw"
    and um: "UnmarshalMessage raw = Inr \<lparr>Type = MsgTypeData, Data = d\<rparr>"
    and st: "start_res e = None" and wr: "write_res e = (length d, None)"
    by (cases r) (auto simp: receives_DATA_def)
  from handleMessage_Data_ok [OF um st wr Cons.prems(2), of goos]
  obtain s' where hm: "handleMessage goos s raw e = (None, s')"
    and live: "case pty s' of None \<Rightarrow> False | Some p \<Rightarrow> \<not> closed p"
    and rec: "pty_received s' = pty_received s @ d"
    and sent: "conn_sent s' = conn_sent s" and ctx: "ctx_done s' = ctx_done s"
    by blast
  have live': "case pty s' of None \<Rightarrow> True | Some p \<Rightarrow> \<not> closed p"
    using live by (cases "pty s'") simp_all
  have step: "readLoop goos s (x # ins) = readLoop goos s' ins"
    using Cons.prems(1) x r hm by simp
  from Cons.IH [of s'] ctx Cons.prems(1) live' rec sent step
  show ?case by simp
qed

lemma data_payload_wire:
  "length d \<le> 65532 \<Longrightarrow>
   data_payload ([MsgTypeData] @ LittleEndian_PutUint16 (of_nat (length d)) @ d) = d"
  using UnmarshalMessage_wire [of d MsgTypeData] by (simp add: data_payload_def)

lemma peer_received_snoc: "peer_received (fs @ [f]) = peer_received fs @ data_payload f"
  by (simp add: peer_received_def)

lemma readFromPTY_loop_reads:
  assumes "list_all read_ok ins" and "\<not> ctx_done s" and "pty s = Some p" and "\<not> closed p"
  shows "snd (readFromPTY_loop s ins) = Running
         \<and> conn_sent (fst (readFromPTY_loop s ins))
             = conn_sent s @ map (\<lambda>d. [MsgTypeData] @ LittleEndian_PutUint16 (of_nat (length d)) @ d)
                               (filter (\<lambda>d. 0 < length d) (map (fst \<circ> fst) ins))
         \<and> peer_received (conn_sent (fst (readFromPTY_loop s ins)))
             = peer_received (conn_sent s) @ concat (map (fst \<circ> fst) ins)"
  using assms
proof (induction ins arbitrary: s p)
  case Nil
  then show ?case by simp
next
  case (Cons x ins)
  obtain buf ws err where x: "x = ((buf, err), ws)" by (metis surj_pair)
  from Cons.prems(1) have rx: "read_ok x" and rest: "list_all read_ok ins"
    by simp_all
  from rx x have ok: "err = None" "length buf \<le> 4096" "ws = None"
    by (simp_all add: read_ok_def)
  let ?p' = "p\<lparr>calls := calls p @ [MasterRead]\<rparr>"
  let ?s1 = "s\<lparr>pty := Some ?p'\<rparr>"
  let ?s2 = "if 0 < length buf then sendData ?s1 buf None else ?s1"
  have rd: "PTY_Read p (buf, None) = ((buf, None), ?p')"
    using Cons.prems(4) by (simp add: PTY_Read_def)
  have step: "readFromPTY_loop s (x # ins) = readFromPTY_loop ?s2 ins"
    using Cons.prems(2,3) x ok rd by simp
  have sd: "sendData ?s1 buf None
              = ?s1\<lparr>conn_sent := conn_sent s @
                  [ [MsgTypeData] @ LittleEndian_PutUint16 (of_nat (length buf)) @ buf]\<rparr>"
    using ok(2) by (simp add: sendData_def sendMessage_ok)
  have inv: "\<not> ctx_done ?s2" "pty ?s2 = Some ?p'" "\<not> closed ?p'"
    using Cons.prems(2,4) by (simp_all add: sd)
  have sent: "conn_sent ?s2 = conn_sent s @
      map (\<lambda>d. [MsgTypeData] @ LittleEndian_PutUint16 (of_nat (length d)) @ d)
          (filter (\<lambda>d. 0 < length d) [buf])"
    by (simp add: sd)
  have peer: "peer_received (conn_sent ?s2) = peer_received (conn_sent s) @ buf"
    using ok(2) data_payload_wire [of buf] by (simp add: sd peer_received_snoc)
  let ?f = "\<lambda>d. [MsgTypeData] @ LittleEndian_PutUint16 (of_nat (length d)) @ d"
  let ?R = "map (fst \<circ> fst) ins"
  note IH = Cons.IH [OF rest inv]
  have e1: "map (fst \<circ> fst) (x # ins) = buf # ?R"
    using x by simp
  have e2: "map ?f (filter (\<lambda>d. 0 < length d) [buf]) @ map ?f (filter (\<lambda>d. 0 < length d) ?R)
              = map ?f (filter (\<lambda>d. 0 < length d) (buf # ?R))"
    by simp
  have a: "snd (readFromPTY_loop s (x # ins)) = Running"
    unfolding step using IH by blast
  have "conn_sent (fst (readFromPTY_loop s (x # ins)))
          = conn_sent ?s2 @ map ?f (filter (\<lambda>d. 0 < length d) ?R)"
    unfolding step using IH by blast
  also have "\<dots> = conn_sent s @ map ?f (filter (\<lambda>d. 0 < length d) (buf # ?R))"
    unfolding sent e2 [symmetric] by (rule append_assoc)
  finally have b: "conn_sent (fst (readFromPTY_loop s (x # ins)))
          = conn_sent s @ map ?f (filter (\<lambda>d. 0 < length d) (map (fst \<circ> fst) (x # ins)))"
    unfolding e1 .
  have "peer_received (conn_sent (fst (readFromPTY_loop s (x # ins))))
          = peer_received (conn_sent ?s2) @ concat ?R"
    unfolding step using IH by blast
  also have "\<dots> = peer_received (conn_sent s) @ concat (buf # ?R)"
    unfolding peer by simp
  finally have c: "peer_received (conn_sent (fst (readFromPTY_loop s (x # ins))))
          = peer_received (conn_sent s) @ concat (map (fst \<circ> fst) (x # ins))"
    unfolding e1 .
  from a b c show ?case by blast
qed

lemma readFromPTY_reads:
  assumes "list_all read_ok rs" and "\<not> ctx_done s" and "pty s = Some p" and "\<not> closed p"
  shows "snd (readFromPTY s rs) = Running
         \<and> conn_sent (fst (readFromPTY s rs))
             = conn_sent s @ map (\<lambda>d. [MsgTypeData] @ LittleEndian_PutUint16 (of_nat (length d)) @ d)
                               (filter (\<lambda>d. 0 < length d) (map (fst \<circ> fst) rs))
         \<and> peer_received (conn_sent (fst (readFromPTY s rs)))
             = peer_received (conn_sent s) @ concat (map (fst \<circ> fst) rs)"
proof -
  have eq: "readFromPTY s rs = readFromPTY_loop s rs"
    using assms(3) by (simp add: readFromPTY_def)
  show ?thesis
    unfolding eq by (rule readFromPTY_loop_reads [OF assms])
qed


lemma master_received_snoc_take:
  "master_received (cs @ [MasterWrite d n]) = master_received cs @ take n d"
  by (induction cs rule: master_received.induct) simp_all

lemma handleData_step:
  assumes "case pty s of None \<Rightarrow> True | Some p \<Rightarrow> \<not> closed p"
  shows "\<exists>res s1. handleData s d e = (res, s1)
           \<and> pty_received s1
               = pty_received s @ (if pty s = None \<and> start_res e \<noteq> None then []
                                   else take (fst (write_res e)) d)
           \<and> (pty s1 \<noteq> None) = (pty s \<noteq> None \<or> start_res e = None)
           \<and> (case pty s1 of None \<Rightarrow> True | Some p \<Rightarrow> \<not> closed p)"
proof (cases "pty s")
  case None
  show ?thesis
  proof (cases "start_res e")
    case n: None
    obtain n' err where w: "write_res e = (n', err)" by (cases "write_res e")
    from None n w show ?thesis
      by (simp add: handleData_def NewPTY_def PTY_Write_def pty_received_def)
  next
    case (Some err)
    with None show ?thesis
      by (simp add: handleData_def NewPTY_def pty_received_def)
  qed
next
  case (Some p)
  obtain n' err where w: "write_res e = (n', err)" by (cases "write_res e")
  from Some assms w show ?thesis
    by (simp add: handleData_def PTY_Write_def pty_received_def master_received_snoc_take)
qed

lemma readLoop_DATA_step:
  assumes "\<not> ctx_done s" and "length d \<le> 65532"
    and "case pty s of None \<Rightarrow> True | Some p \<Rightarrow> \<not> closed p"
  shows "\<exists>s2. readLoop goos s ((Recv (frame MsgTypeData d), e) # rest) = readLoop goos s2 rest
           \<and> pty_received s2
               = pty_received s @ (if pty s = None \<and> start_res e \<noteq> None then []
                                   else take (fst (write_res e)) d)
           \<and> (pty s2 \<noteq> None) = (pty s \<noteq> None \<or> start_res e = None)
           \<and> (case pty s2 of None \<Rightarrow> True | Some p \<Rightarrow> \<not> closed p)"
proof -
  from handleData_step [OF assms(3), of d e] obtain res s1
    where hd: "handleData s d e = (res, s1)"
      and rec: "pty_received s1
               = pty_received s @ (if pty s = None \<and> start_res e \<noteq> None then []
                                   else take (fst (write_res e)) d)"
      and ex: "(pty s1 \<noteq> None) = (pty s \<noteq> None \<or> start_res e = None)"
      and live: "case pty s1 of None \<Rightarrow> True | Some p \<Rightarrow> \<not> closed p"
    by (elim exE conjE) (rule that)
  have hm: "handleMessage goos s (frame MsgTypeData d) e = (map_option Error res, s1)"
    using assms(2) hd by (simp add: handleMessage_frame lift_err_def)
  show ?thesis
  proof (cases res)
    case None
    then have "readLoop goos s ((Recv (frame MsgTypeData d), e) # rest) = readLoop goos s1 rest"
      using assms(1) hm by simp
    with rec ex live show ?thesis by (intro exI [of _ s1]) simp
  next
    case (Some err)
    let ?s2 = "sendError s1 (''Error: '' @ err) (ws_res e)"
    have st: "readLoop goos s ((Recv (frame MsgTypeData d), e) # rest) = readLoop goos ?s2 rest"
      using assms(1) hm Some by simp
    have p: "pty ?s2 = pty s1" by (simp add: sendError_keeps)
    have "pty_received ?s2 = pty_received s1" by (simp only: pty_received_def p)
    with st rec ex live p show ?thesis by (intro exI [of _ ?s2]) simp
  qed
qed

lemma readLoop_DATA_delivered:
  assumes "list_all (\<lambda>(d, e). length d \<le> 65532) steps"
    and "case pty s of None \<Rightarrow> True | Some p \<Rightarrow> \<not> closed p"
    and "snd (readLoop goos s (DATA_frames steps)) = Running"
  shows "pty_received (fst (readLoop goos s (DATA_frames steps)))
           = pty_received s @ delivered (pty s \<noteq> None) steps"
  using assms
proof (induction steps arbitrary: s)
  case Nil
  then show ?case by (simp add: DATA_frames_def)
next
  case (Cons x steps)
  obtain d e where x: "x = (d, e)" by (cases x)
  have fr: "DATA_frames (x # steps) = (Recv (frame MsgTypeData d), e) # DATA_frames steps"
    by (simp add: DATA_frames_def x)
  have nd: "\<not> ctx_done s"
  proof
    assume "ctx_done s"
    then have "snd (readLoop goos s (DATA_frames (x # steps))) = Returned"
      by (simp add: readLoop_ctx_done)
    with Cons.prems(3) show False by simp
  qed
  from Cons.prems(1) x have len: "length d \<le> 65532" and rest: "list_all (\<lambda>(d, e). length d \<le> 65532) steps"
    by simp_all
  from readLoop_DATA_step [OF nd len Cons.prems(2), of goos e "DATA_frames steps", folded fr]
  obtain s2 where st: "readLoop goos s (DATA_frames (x # steps)) = readLoop goos s2 (DATA_frames steps)"
    and rec: "pty_received s2
               = pty_received s @ (if pty s = None \<and> start_res e \<noteq> None then []
                                   else take (fst (write_res e)) d)"
    and ex: "(pty s2 \<noteq> None) = (pty s \<noteq> None \<or> start_res e = None)"
    and live: "case pty s2 of None \<Rightarrow> True | Some p \<Rightarrow> \<not> closed p"
    by (elim exE conjE) (rule that)
  have run: "snd (readLoop goos s2 (DATA_frames steps)) = Running"
    using Cons.prems(3) st by simp
  have "pty_received (fst (readLoop goos s (DATA_frames (x # steps))))
          = pty_received s2 @ delivered (pty s2 \<noteq> None) steps"
    unfolding st by (rule Cons.IH [OF rest live run])
  also have "\<dots> = pty_received s @ delivered (pty s \<noteq> None) (x # steps)"
  proof (cases "pty s = None \<and> start_res e \<noteq> None")
    case True
    with ex have "(pty s2 \<noteq> None) = False" by simp
    with True rec x show ?thesis by simp
  next
    case False
    with ex have "(pty s2 \<noteq> None) = True" by auto
    with False rec x show ?thesis by auto
  qed
  finally show ?case .
qed

lemma delivered_all:
  "list_all (\<lambda>(d, e). start_res e = None \<and> fst (write_res e) = length d) steps \<Longrightarrow>
   delivered live steps = concat (map fst steps)"
  by (induction steps arbitrary: live) auto

lemma receives_DATA_frames:
  "list_all (\<lambda>(d, e). length d \<le> 65532 \<and> start_res e = None
                      \<and> write_res e = (length d, None)) steps \<Longrightarrow>
   list_all2 receives_DATA (DATA_frames steps) (map fst steps)"
  by (induction steps) (auto simp: DATA_frames_def receives_DATA_def UnmarshalMessage_frame)

text \<open>
  C9, as the claim states it, fails in its first half: of the DATA frames \<^verbatim>\<open>ab\<close> and
  \<^verbatim>\<open>c\<close>, when the write of the first fails after one byte, the error is reported, the
  loop goes on and the master receives \<^verbatim>\<open>ac\<close>, which is not the concatenation. And a
  DATA frame with 65533 bytes of payload reaches no write: the decoder panics.
\<close>

theorem failed_write_leaves_gap:
  "readLoop ''linux'' session_live
     [(Recv [0x01, 2, 0, 97, 98], (env_ok 0)\<lparr>write_res := (1, Some ''input/output error'')\<rparr>),
      (Recv [0x01, 1, 0, 99], env_ok 1)]
   = (session_live
        \<lparr>conn_sent := [ [0x04, 25, 0] @ bytes_of ''Error: input/output error''],
         pty := Some (pty0\<lparr>calls := [StartWithSize 80 24, MasterWrite [97, 98] 1,
                                       MasterWrite [99] 1]\<rparr>)\<rparr>,
      Running)
   \<and> pty_received (fst (readLoop ''linux'' session_live
     [(Recv [0x01, 2, 0, 97, 98], (env_ok 0)\<lparr>write_res := (1, Some ''input/output error'')\<rparr>),
      (Recv [0x01, 1, 0, 99], env_ok 1)])) = [97, 99]
   \<and> pty_received session_live @ concat [ [97, 98], [99] ] = [97, 98, 99]
   \<and> readLoop ''linux'' session_live
        [(Recv ([0x01, 0xFD, 0xFF] @ replicate 65533 0), env_ok 65533)]
       = (session_live, Panicked)"
  by (simp add: handleMessage_def UnmarshalMessage_def slice_def
      LittleEndian_Uint16_def MsgTypeData_def lift_err_def handleData_def session_live_def
      createSession_def pty0_def env_ok_def PTY_Write_def sendError_def sendMessage_def
      Marshal_def MsgTypeError_def LittleEndian_PutUint16_def bytes_of_def pty_received_def)

text \<open>
  C9, amended: per-direction byte order is preserved. From the peer to the PTY: for every
  sequence of DATA frames with payloads of at most 65532 bytes, received by a session whose
  PTY, if it has one, is not closed, after which the reader loop is still running (the
  session has not been cancelled meanwhile), the master has received,
  after what it had before and in the order of the frames, the bytes that the write of each
  frame took: the first \<open>n\<close> bytes of the payload when the write returns the count \<open>n\<close>,
  and nothing for a frame that finds no PTY and cannot start one. When every PTY start
  and every write succeeds in full this is exactly the concatenation of the payloads, the
  loop is still running and no ERROR frame is sent. From the PTY to the peer: when the pump
  makes the reads \<open>p1..pm\<close> (each without error, of at most 4096 bytes, and sent
  successfully), the connection gets one DATA frame for each non-empty read, in read
  order, and the payloads a peer decodes from them concatenate to the reads. Each
  direction is driven by one goroutine, which is why a sequential run of each loop states
  the property.
\<close>

theorem byte_order_preserved:
  "(list_all (\<lambda>(d, e). length d \<le> 65532) steps
      \<and> (case pty s of None \<Rightarrow> True | Some p \<Rightarrow> \<not> closed p)
      \<and> snd (readLoop goos s (DATA_frames steps)) = Running \<longrightarrow>
      pty_received (fst (readLoop goos s (DATA_frames steps)))
        = pty_received s @ delivered (pty s \<noteq> None) steps)
   \<and> (list_all (\<lambda>(d, e). start_res e = None \<and> fst (write_res e) = length d) steps \<longrightarrow>
      delivered live steps = concat (map fst steps))
   \<and> (list_all (\<lambda>(d, e). length d \<le> 65532 \<and> start_res e = None
                          \<and> write_res e = (length d, None)) steps
      \<and> \<not> ctx_done s \<and> (case pty s of None \<Rightarrow> True | Some p \<Rightarrow> \<not> closed p) \<longrightarrow>
      snd (readLoop goos s (DATA_frames steps)) = Running
      \<and> pty_received (fst (readLoop goos s (DATA_frames steps)))
          = pty_received s @ concat (map fst steps)
      \<and> conn_sent (fst (readLoop goos s (DATA_frames steps))) = conn_sent s)
   \<and> (list_all read_ok rs \<and> \<not> ctx_done t \<and> pty t = Some p \<and> \<not> closed p \<longrightarrow>
      snd (readFromPTY t rs) = Running
      \<and> conn_sent (fst (readFromPTY t rs))
          = conn_sent t @ map (\<lambda>d. [MsgTypeData] @ LittleEndian_PutUint16 (of_nat (length d)) @ d)
                            (filter (\<lambda>d. 0 < length d) (map (fst \<circ> fst) rs))
      \<and> peer_received (conn_sent (fst (readFromPTY t rs)))
          = peer_received (conn_sent t) @ concat (map (fst \<circ> fst) rs))"
proof (intro conjI impI)
  assume "list_all (\<lambda>(d, e). length d \<le> 65532) steps
      \<and> (case pty s of None \<Rightarrow> True | Some p \<Rightarrow> \<not> closed p)
      \<and> snd (readLoop goos s (DATA_frames steps)) = Running"
  then show "pty_received (fst (readLoop goos s (DATA_frames steps)))
        = pty_received s @ delivered (pty s \<noteq> None) steps"
    using readLoop_DATA_delivered [of steps s goos] by blast
next
  assume "list_all (\<lambda>(d, e). start_res e = None \<and> fst (write_res e) = length d) steps"
  then show "delivered live steps = concat (map fst steps)"
    by (rule delivered_all)
next
  assume a: "list_all (\<lambda>(d, e). length d \<le> 65532 \<and> start_res e = None
                          \<and> write_res e = (length d, None)) steps
      \<and> \<not> ctx_done s \<and> (case pty s of None \<Rightarrow> True | Some p \<Rightarrow> \<not> closed p)"
  then have r: "list_all2 receives_DATA (DATA_frames steps) (map fst steps)"
    using receives_DATA_frames [of steps] by blast
  from a have b: "\<not> ctx_done s" "case pty s of None \<Rightarrow> True | Some p \<Rightarrow> \<not> closed p"
    by simp_all
  note R = readLoop_DATA_frames [OF r b, of goos]
  from R show "snd (readLoop goos s (DATA_frames steps)) = Running" by (rule conjunct1)
  from R show "pty_received (fst (readLoop goos s (DATA_frames steps)))
          = pty_received s @ concat (map fst steps)"
    by (elim conjE)
  from R show "conn_sent (fst (readLoop goos s (DATA_frames steps))) = conn_sent s"
    by (elim conjE)
next
  assume a: "list_all read_ok rs \<and> \<not> ctx_done t \<and> pty t = Some p \<and> \<not> closed p"
  then have b: "list_all read_ok rs" "\<not> ctx_done t" "pty t = Some p" "\<not> closed p"
    by simp_all
  note R = readFromPTY_reads [OF b]
  from R show "snd (readFromPTY t rs) = Running" by (rule conjunct1)
  from R show "conn_sent (fst (readFromPTY t rs))
          = conn_sent t @ map (\<lambda>d. [MsgTypeData] @ LittleEndian_PutUint16 (of_nat (length d)) @ d)
                            (filter (\<lambda>d. 0 < length d) (map (fst \<circ> fst) rs))"
    by (elim conjE)
  from R show "peer_received (conn_sent (fst (readFromPTY t rs)))
          = peer_received (conn_sent t) @ concat (map (fst \<circ> fst) rs)"
    by (elim conjE)
qed

text \<open>The amended C9 on three DATA frames whose second write fails after one byte and on
  two DATA frames without failure, for a fresh session; and on the reads \<^verbatim>\<open>o\<close>, nothing
  and \<^verbatim>\<open>k\<close> with a newline for a session with a live PTY.\<close>

theorem byte_order_preserved_witness:
  "list_all (\<lambda>(d, e). length d \<le> 65532)
      [([104, 105 :: byte], env_ok 2), ([120, 121], (env_ok 0)\<lparr>write_res := (1, Some ''EIO'')\<rparr>),
       ([10], env_ok 1)]
   \<and> pty createSession = None \<and> \<not> ctx_done createSession
   \<and> snd (readLoop ''linux'' createSession (DATA_frames
        [([104, 105], env_ok 2), ([120, 121], (env_ok 0)\<lparr>write_res := (1, Some ''EIO'')\<rparr>),
         ([10], env_ok 1)])) = Running
   \<and> pty_received (fst (readLoop ''linux'' createSession (DATA_frames
        [([104, 105], env_ok 2), ([120, 121], (env_ok 0)\<lparr>write_res := (1, Some ''EIO'')\<rparr>),
         ([10], env_ok 1)]))) = [104, 105, 120, 10]
   \<and> list_all (\<lambda>(d, e). length d \<le> 65532 \<and> start_res e = None \<and> write_res e = (length d, None))
        [([104, 105 :: byte], env_ok 2), ([10], env_ok 1)]
   \<and> DATA_frames [([104, 105], env_ok 2), ([10], env_ok 1)]
       = [(Recv [0x01, 2, 0, 104, 105], env_ok 2), (Recv [0x01, 1, 0, 10], env_ok 1)]
   \<and> pty_received (fst (readLoop ''linux'' createSession
        [(Recv [0x01, 2, 0, 104, 105], env_ok 2), (Recv [0x01, 1, 0, 10], env_ok 1)]))
       = [104, 105, 10]
   \<and> list_all read_ok [(([111], None), None), (([], None), None), (([107, 10], None), None)]
   \<and> \<not> ctx_done session_live \<and> pty session_live = Some pty0 \<and> \<not> closed pty0
   \<and> conn_sent (fst (readFromPTY session_live
        [(([111], None), None), (([], None), None), (([107, 10], None), None)]))
       = [ [0x01, 1, 0, 111], [0x01, 2, 0, 107, 10] ]
   \<and> peer_received (conn_sent (fst (readFromPTY session_live
        [(([111], None), None), (([], None), None), (([107, 10], None), None)])))
       = [111, 107, 10]"
proof -
  let ?bad = "(env_ok 0)\<lparr>write_res := (1, Some ''EIO'')\<rparr>"
  let ?st1 = "[([104, 105], env_ok 2), ([120, 121], ?bad), ([10 :: byte], env_ok 1)]"
  let ?st2 = "[([104, 105], env_ok 2), ([10 :: byte], env_ok 1)]"
  let ?rs = "[(([111 :: byte], None :: go_error option), None :: go_error option),
              (([], None), None), (([107, 10], None), None)]"
  have c: "pty createSession = None" "\<not> ctx_done createSession"
    "case pty createSession of None \<Rightarrow> True | Some p \<Rightarrow> \<not> closed p"
    "pty_received createSession = []"
    by (simp_all add: createSession_def pty_received_def)
  have l: "\<not> ctx_done session_live" "pty session_live = Some pty0" "\<not> closed pty0"
    "conn_sent session_live = []"
    by (simp_all add: session_live_def createSession_def pty0_def)
  have a1: "list_all (\<lambda>(d, e). length d \<le> 65532) ?st1" by simp
  have f1: "DATA_frames ?st1
      = [(Recv [0x01, 2, 0, 104, 105], env_ok 2), (Recv [0x01, 2, 0, 120, 121], ?bad),
         (Recv [0x01, 1, 0, 10], env_ok 1)]"
    by (simp add: DATA_frames_def frame_def MsgTypeData_def LittleEndian_PutUint16_def)
  have run1: "snd (readLoop ''linux'' createSession (DATA_frames ?st1)) = Running"
    unfolding f1
    by (simp add: handleMessage_def UnmarshalMessage_def slice_def
      LittleEndian_Uint16_def MsgTypeData_def lift_err_def handleData_def NewPTY_def
      createSession_def env_ok_def PTY_Write_def sendError_def sendMessage_def
      Marshal_def MsgTypeError_def LittleEndian_PutUint16_def bytes_of_def)
  note T1 = byte_order_preserved [where steps = ?st1 and s = createSession
      and goos = "''linux''", THEN conjunct1, THEN mp, OF conjI [OF a1 conjI [OF c(3) run1] ] ]
  have d1: "delivered (pty createSession \<noteq> None) ?st1 = [104, 105, 120, 10]"
    by (simp add: c(1) env_ok_def)
  have r1: "pty_received (fst (readLoop ''linux'' createSession (DATA_frames ?st1)))
      = [104, 105, 120, 10]"
    unfolding T1 d1 c(4) by simp
  have a2: "list_all (\<lambda>(d, e). length d \<le> 65532 \<and> start_res e = None
                       \<and> write_res e = (length d, None)) ?st2"
    by (simp add: env_ok_def)
  have f2: "DATA_frames ?st2
      = [(Recv [0x01, 2, 0, 104, 105], env_ok 2), (Recv [0x01, 1, 0, 10], env_ok 1)]"
    by (simp add: DATA_frames_def frame_def MsgTypeData_def LittleEndian_PutUint16_def)
  note T2 = byte_order_preserved [where steps = ?st2 and s = createSession
      and goos = "''linux''", THEN conjunct2, THEN conjunct2, THEN conjunct1, THEN mp,
      OF conjI [OF a2 conjI [OF c(2) c(3)] ] ]
  from T2 have "pty_received (fst (readLoop ''linux'' createSession (DATA_frames ?st2)))
      = pty_received createSession @ concat (map fst ?st2)"
    by (elim conjE)
  then have r2: "pty_received (fst (readLoop ''linux'' createSession
        [(Recv [0x01, 2, 0, 104, 105], env_ok 2), (Recv [0x01, 1, 0, 10], env_ok 1)]))
       = [104, 105, 10]"
    unfolding f2 c(4) by simp
  have a3: "list_all read_ok ?rs" by (simp add: read_ok_def)
  note T3 = byte_order_preserved [where rs = ?rs and t = session_live and p = pty0,
      THEN conjunct2, THEN conjunct2, THEN conjunct2, THEN mp,
      OF conjI [OF a3 conjI [OF l(1) conjI [OF l(2) l(3)] ] ] ]
  from T3 have "conn_sent (fst (readFromPTY session_live ?rs))
          = conn_sent session_live
            @ map (\<lambda>d. [MsgTypeData] @ LittleEndian_PutUint16 (of_nat (length d)) @ d)
                (filter (\<lambda>d. 0 < length d) (map (fst \<circ> fst) ?rs))"
    by (elim conjE)
  then have r3: "conn_sent (fst (readFromPTY session_live ?rs))
       = [ [0x01, 1, 0, 111], [0x01, 2, 0, 107, 10] ]"
    unfolding l(4) by (simp add: MsgTypeData_def LittleEndian_PutUint16_def)
  have r4: "peer_received (conn_sent (fst (readFromPTY session_live ?rs))) = [111, 107, 10]"
    unfolding r3
    by (simp add: peer_received_def data_payload_def UnmarshalMessage_def slice_def
        LittleEndian_Uint16_def MsgTypeData_def)
  from a1 c(1,2) run1 r1 a2 f2 r2 a3 l(1,2,3) r3 r4 show ?thesis
    by (intro conjI)
qed

end
